theory Spec2Isabelle
  imports Complex_Main "HOL-Library.Sublist" "HOL-Library.Word"
begin

section \<open>Python values shared by the modules\<close>

text \<open>
  A Python value that may be \<open>None\<close> is an \<open>option\<close>. Truthiness of such a
  value (\<open>if v\<close>, \<open>v or d\<close>) is: \<open>None\<close>, the empty string and the empty list
  are false, everything else is true.
\<close>

definition truthy :: "'a list option \<Rightarrow> bool" where
  "truthy v = (case v of None \<Rightarrow> False | Some s \<Rightarrow> s \<noteq> [])"

definition py_or :: "'a list option \<Rightarrow> 'a list \<Rightarrow> 'a list" where
  "py_or v d = (case v of None \<Rightarrow> d | Some s \<Rightarrow> if s = [] then d else s)"

text \<open>
  An exception value: the names of its class and of all its base classes, and the text
  \<open>str(e)\<close>. An \<open>except C\<close> clause catches it when \<open>C\<close> is among the names.
\<close>

datatype exc = Exc (classes: "string list") (message: string)

definition isinstance :: "exc \<Rightarrow> string \<Rightarrow> bool" where
  "isinstance e c = (c \<in> set (classes e))"

text \<open>
  Characters: \<open>str.isspace\<close>, the digits of \<open>\d\<close> and \<open>str.lower\<close> on the code
  points below 256.
\<close>

definition is_space :: "char \<Rightarrow> bool" where
  "is_space c = (let n = (of_char c :: nat) in
     (9 \<le> n \<and> n \<le> 13) \<or> (28 \<le> n \<and> n \<le> 32) \<or> n = 133 \<or> n = 160)"

definition is_digit :: "char \<Rightarrow> bool" where
  "is_digit c = (let n = (of_char c :: nat) in 48 \<le> n \<and> n \<le> 57)"

definition lower_char :: "char \<Rightarrow> char" where
  "lower_char c = (let n = (of_char c :: nat) in
     if 65 \<le> n \<and> n \<le> 90 then char_of (n + 32) else c)"

definition lower :: "string \<Rightarrow> string" where
  "lower s = map lower_char s"

definition strip :: "string \<Rightarrow> string" where
  "strip s = rev (dropWhile is_space (rev (dropWhile is_space s)))"

text \<open>\<open>sub in s\<close> on strings.\<close>

fun contains :: "string \<Rightarrow> string \<Rightarrow> bool" where
  "contains sub [] = (sub = [])"
| "contains sub (c # cs) = (prefix sub (c # cs) \<or> contains sub cs)"

section \<open>Configuration (config.py)\<close>

record config =
  typesense_backend :: string
  typesense_api_key :: "string option"
  typesense_collection_name :: string
  typesense_doc_version :: "string option"
  typesense_content_selectors :: "string list option"
  typesense_drop_existing :: bool
  html_theme :: "string option"
  language :: "string option"

type_synonym environ = "string \<rightharpoonup> string"

definition ENV_API_KEY :: string where
  "ENV_API_KEY = ''TYPESENSE_API_KEY''"

text \<open>
  The list of config.py named \<open>DEFAULT_CONTENT_SELECTORS\<close>, the registered default of
  the option \<open>typesense_content_selectors\<close>. (themes.py has a list of the same name,
  defined below under that name.)
\<close>

definition config_DEFAULT_CONTENT_SELECTORS :: "string list" where
  "config_DEFAULT_CONTENT_SELECTORS =
     [''.wy-nav-content-wrap'', ''article.bd-article'', ''.body'', ''article[role=main]'', ''main'']"

definition get_effective_backend :: "config \<Rightarrow> environ \<Rightarrow> string" where
  "get_effective_backend cfg env =
     (let backend = typesense_backend cfg in
      if backend = ''auto'' then
        (if truthy (typesense_api_key cfg) \<or> truthy (env ENV_API_KEY) then ''typesense''
         else ''pagefind'')
      else backend)"

section \<open>Theme registry (themes.py)\<close>

definition THEME_SELECTORS :: "(string \<times> string list) list" where
  "THEME_SELECTORS =
     [(''sphinx_rtd_theme'', [''.wy-nav-content-wrap'', ''.wy-nav-content'', ''[role=main]'']),
      (''furo'', [''article[role=main]'', ''.content'']),
      (''alabaster'', [''.body'', ''.document'']),
      (''pydata_sphinx_theme'', [''article.bd-article'', ''main.bd-main'', ''main.bd-content'']),
      (''sphinx_book_theme'', [''main#main-content'', ''article'', ''article.bd-article'']),
      (''shibuya'', [''article.yue[role=main]'', ''article[role=main]'', ''main.sy-main''])]"

definition DEFAULT_CONTENT_SELECTORS :: "string list" where
  "DEFAULT_CONTENT_SELECTORS =
     [''article[role=main]'', ''main'', ''.body'', ''.document'', ''[role=main]'']"

definition get_content_selectors :: "string option \<Rightarrow> string list option \<Rightarrow> string list" where
  "get_content_selectors theme_name custom_selectors =
     (case custom_selectors of
        Some custom \<Rightarrow> custom
      | None \<Rightarrow>
          (case theme_name of
             None \<Rightarrow> DEFAULT_CONTENT_SELECTORS
           | Some theme \<Rightarrow>
               (if theme = [] then DEFAULT_CONTENT_SELECTORS
                else case map_of THEME_SELECTORS theme of
                       Some selectors \<Rightarrow> selectors
                     | None \<Rightarrow> DEFAULT_CONTENT_SELECTORS)))"

definition get_content_selectors_for_app :: "config \<Rightarrow> string list" where
  "get_content_selectors_for_app cfg =
     (case typesense_content_selectors cfg of
        None \<Rightarrow> get_content_selectors (html_theme cfg) None
      | Some custom \<Rightarrow>
          (if custom = [] then get_content_selectors (html_theme cfg) None else custom))"

section \<open>Parsed HTML\<close>

text \<open>
  A parsed page as BeautifulSoup presents it: a tag has a name, a dictionary of
  attributes and a list of children, each a tag or a text node. An element met during
  a search is a tag together with its place in the tree: the nearest preceding sibling
  that is a tag, and its ancestors, nearest first.
\<close>

datatype tag = Tag (name: string) (attrs: "(string \<times> string) list") (contents: "child list")
  and child = Element tag | NavigableString string

record element =
  elem :: tag
  previous_sibling :: "tag option"
  parents :: "tag list"

text \<open>\<open>tag.get(key)\<close> and \<open>tag.get(key, "")\<close>.\<close>

definition get_attr :: "tag \<Rightarrow> string \<Rightarrow> string option" where
  "get_attr t key = map_of (attrs t) key"

definition get_attr_default :: "tag \<Rightarrow> string \<Rightarrow> string" where
  "get_attr_default t key = (case get_attr t key of None \<Rightarrow> [] | Some v \<Rightarrow> v)"

text \<open>The tags below a list of children, in document order, each with its place.\<close>

fun walk :: "tag list \<Rightarrow> tag option \<Rightarrow> child list \<Rightarrow> element list" where
  "walk ps prev [] = []"
| "walk ps prev (NavigableString s # cs) = walk ps prev cs"
| "walk ps prev (Element (Tag n a ch) # cs) =
     \<lparr>elem = Tag n a ch, previous_sibling = prev, parents = ps\<rparr>
       # walk (Tag n a ch # ps) None ch @ walk ps (Some (Tag n a ch)) cs"

definition descendants :: "tag \<Rightarrow> tag list" where
  "descendants t = map elem (walk [t] None (contents t))"

text \<open>\<open>element.find_all(names)\<close>: the descendants with one of the names.\<close>

definition find_all :: "element \<Rightarrow> string list \<Rightarrow> element list" where
  "find_all e names =
     filter (\<lambda>d. name (elem d) \<in> set names) (walk (elem e # parents e) None (contents (elem e)))"

text \<open>\<open>tag.find(n, key=True)\<close>: the first descendant named \<open>n\<close> that has the attribute.\<close>

definition find_with_attr :: "tag \<Rightarrow> string \<Rightarrow> string \<Rightarrow> tag option" where
  "find_with_attr t n key =
     List.find (\<lambda>d. name d = n \<and> get_attr d key \<noteq> None) (descendants t)"

text \<open>\<open>element.find_parent(n)\<close>: the nearest ancestor named \<open>n\<close>.\<close>

definition find_parent :: "element \<Rightarrow> string \<Rightarrow> tag option" where
  "find_parent e n = List.find (\<lambda>p. name p = n) (parents e)"

text \<open>
  \<open>tag.get_text(strip=True)\<close>: the text nodes below the tag in document order, each
  stripped, the empty ones dropped, joined without a separator.
\<close>

fun strings :: "child list \<Rightarrow> string list" where
  "strings [] = []"
| "strings (NavigableString s # cs) = s # strings cs"
| "strings (Element (Tag n a ch) # cs) = strings ch @ strings cs"

definition get_text_strip :: "tag \<Rightarrow> string" where
  "get_text_strip t = concat (filter (\<lambda>s. s \<noteq> []) (map strip (strings (contents t))))"

text \<open>A parsed document answers \<open>soup.select_one(selector)\<close>.\<close>

type_synonym soup = "string \<Rightarrow> element option"

section \<open>Documents (backends/typesense.py)\<close>

record hierarchy =
  lvl0 :: string
  lvl1 :: string
  lvl2 :: string
  lvl3 :: string

record document =
  doc_id :: string
  hierarchy_lvl0 :: string
  hierarchy_lvl1 :: string
  hierarchy_lvl2 :: string
  hierarchy_lvl3 :: string
  hierarchy_lvl4 :: string
  hierarchy_lvl5 :: string
  hierarchy_lvl6 :: string
  content :: string
  url :: string
  url_without_anchor :: string
  anchor :: string
  doc_type :: string
  version :: string
  doc_language :: string
  weight :: int
  item_priority :: int

definition DOC_TYPE_WEIGHTS :: "(string \<times> int) list" where
  "DOC_TYPE_WEIGHTS =
     [(''lvl0'', 100), (''lvl1'', 90), (''lvl2'', 80), (''lvl3'', 70), (''content'', 50)]"

definition DOC_TYPE_PRIORITIES :: "(string \<times> int) list" where
  "DOC_TYPE_PRIORITIES =
     [(''lvl0'', 100), (''lvl1'', 90), (''lvl2'', 80), (''lvl3'', 70), (''content'', 50)]"

definition get_weight :: "string \<Rightarrow> int" where
  "get_weight t = (case map_of DOC_TYPE_WEIGHTS t of None \<Rightarrow> 50 | Some w \<Rightarrow> w)"

definition get_priority :: "string \<Rightarrow> int" where
  "get_priority t = (case map_of DOC_TYPE_PRIORITIES t of None \<Rightarrow> 50 | Some w \<Rightarrow> w)"

subsection \<open>Anchor resolution\<close>

text \<open>The last resort of \<open>_find_anchor\<close>: the enclosing \<open>section\<close>.\<close>

definition section_anchor :: "element \<Rightarrow> string" where
  "section_anchor e =
     (case find_parent e ''section'' of
        None \<Rightarrow> []
      | Some section' \<Rightarrow>
          (case find_with_attr section' ''span'' ''id'' of
             Some label \<Rightarrow> get_attr_default label ''id''
           | None \<Rightarrow>
               (if truthy (get_attr section' ''id'') then get_attr_default section' ''id''
                else [])))"

definition find_anchor :: "element \<Rightarrow> string" where
  "find_anchor e =
     (if truthy (get_attr (elem e) ''id'') then get_attr_default (elem e) ''id''
      else case find_with_attr (elem e) ''a'' ''id'' of
        Some a \<Rightarrow> get_attr_default a ''id''
      | None \<Rightarrow>
     (case find_with_attr (elem e) ''a'' ''name'' of
        Some a \<Rightarrow> get_attr_default a ''name''
      | None \<Rightarrow>
     (case previous_sibling e of
        None \<Rightarrow> section_anchor e
      | Some prev \<Rightarrow>
          (if name prev = ''a'' \<and> truthy (get_attr prev ''id'')
           then get_attr_default prev ''id''
           else section_anchor e))))"

subsection \<open>Document factory\<close>

text \<open>
  The identifier is \<open>hashlib.sha256(s.encode()).hexdigest()[:32]\<close>. A string is a
  list of code points below 256; \<open>encode\<close> is its UTF-8 encoding and \<open>hexdigest\<close>
  writes each byte of a digest as two lowercase hexadecimal digits. The digest function
  itself, \<open>sha256\<close>, belongs to the standard library and is a parameter of the
  factory.
\<close>

type_synonym byte = "8 word"

definition utf8_char :: "char \<Rightarrow> byte list" where
  "utf8_char c = (let n = (of_char c :: nat) in
     if n < 128 then [of_nat n] else [of_nat (192 + n div 64), of_nat (128 + n mod 64)])"

definition encode :: "string \<Rightarrow> byte list" where
  "encode s = concat (map utf8_char s)"

definition hex_digit :: "nat \<Rightarrow> char" where
  "hex_digit n = ''0123456789abcdef'' ! (n mod 16)"

definition hexdigest :: "byte list \<Rightarrow> string" where
  "hexdigest bs = concat (map (\<lambda>b. [hex_digit (unat b div 16), hex_digit (unat b)]) bs)"

definition create_document ::
  "(byte list \<Rightarrow> byte list) \<Rightarrow> config \<Rightarrow> hierarchy \<Rightarrow> string \<Rightarrow> string \<Rightarrow> element \<Rightarrow> string \<Rightarrow> document"
where
  "create_document sha256 cfg h content' url_base e doc_type' =
     (let anchor' = (if get_attr_default (elem e) ''id'' \<noteq> [] then get_attr_default (elem e) ''id''
                     else find_anchor e);
          url' = (if anchor' \<noteq> [] then url_base @ ''#'' @ anchor' else url_base);
          doc_id' = take 32 (hexdigest (sha256 (encode (url' @ '':'' @ take 100 content'))))
      in \<lparr>doc_id = doc_id',
          hierarchy_lvl0 = lvl0 h,
          hierarchy_lvl1 = lvl1 h,
          hierarchy_lvl2 = lvl2 h,
          hierarchy_lvl3 = lvl3 h,
          hierarchy_lvl4 = [],
          hierarchy_lvl5 = [],
          hierarchy_lvl6 = [],
          content = content',
          url = url',
          url_without_anchor = url_base,
          anchor = anchor',
          doc_type = doc_type',
          version = py_or (typesense_doc_version cfg) [],
          doc_language = py_or (language cfg) ''en'',
          weight = get_weight doc_type',
          item_priority = get_priority doc_type'\<rparr>)"

subsection \<open>Content locator\<close>

fun first_match :: "soup \<Rightarrow> string list \<Rightarrow> element option" where
  "first_match soup' [] = None"
| "first_match soup' (selector # selectors) =
     (case soup' selector of
        Some e \<Rightarrow> Some e
      | None \<Rightarrow> first_match soup' selectors)"

definition get_content_element :: "config \<Rightarrow> soup \<Rightarrow> element option" where
  "get_content_element cfg soup' =
     (let selectors = py_or (typesense_content_selectors cfg)
            [''.wy-nav-content-wrap'', ''article.bd-article'', ''.body'',
             ''article[role=main]'', ''main'']
      in first_match soup' selectors)"

subsection \<open>Hierarchy extraction\<close>

text \<open>
  One turn of the loop of \<open>_extract_documents\<close>: the hierarchy after the element
  and the document yielded for it, if any.
\<close>

definition process_element ::
  "(byte list \<Rightarrow> byte list) \<Rightarrow> config \<Rightarrow> string \<Rightarrow> hierarchy \<Rightarrow> element \<Rightarrow> hierarchy \<times> document option"
where
  "process_element sha cfg url_base h e =
     (let tag' = name (elem e); text = get_text_strip (elem e) in
      if text = [] then (h, None)
      else if tag' = ''h1'' then
        (let h' = h\<lparr>lvl0 := text, lvl1 := [], lvl2 := [], lvl3 := []\<rparr>
         in (h', Some (create_document sha cfg h' [] url_base e ''lvl0'')))
      else if tag' = ''h2'' then
        (let h' = h\<lparr>lvl1 := text, lvl2 := [], lvl3 := []\<rparr>
         in (h', Some (create_document sha cfg h' [] url_base e ''lvl1'')))
      else if tag' = ''h3'' then
        (let h' = h\<lparr>lvl2 := text, lvl3 := []\<rparr>
         in (h', Some (create_document sha cfg h' [] url_base e ''lvl2'')))
      else if tag' = ''h4'' then
        (let h' = h\<lparr>lvl3 := text\<rparr>
         in (h', Some (create_document sha cfg h' [] url_base e ''lvl3'')))
      else if tag' = ''p'' \<or> tag' = ''li'' then
        (h, Some (create_document sha cfg h text url_base e ''content''))
      else (h, None))"

fun extract_loop ::
  "(byte list \<Rightarrow> byte list) \<Rightarrow> config \<Rightarrow> string \<Rightarrow> hierarchy \<Rightarrow> element list \<Rightarrow> document list"
where
  "extract_loop sha cfg url_base h [] = []"
| "extract_loop sha cfg url_base h (e # es) =
     (case process_element sha cfg url_base h e of
        (h', None) \<Rightarrow> extract_loop sha cfg url_base h' es
      | (h', Some d) \<Rightarrow> d # extract_loop sha cfg url_base h' es)"

text \<open>
  A file of the build output: the parts of its path, and what reading and parsing it
  gives (an exception, or the parsed page).
\<close>

record html_file =
  path :: "string list"
  read_text :: "exc + soup"

definition str_path :: "string list \<Rightarrow> string" where
  "str_path parts = concat (case parts of [] \<Rightarrow> [] | p # ps \<Rightarrow> p # map (\<lambda>q. ''/'' @ q) ps)"

definition get_relative_url :: "string list \<Rightarrow> html_file \<Rightarrow> string" where
  "get_relative_url outdir f =
     (if prefix outdir (path f) then str_path (drop (length outdir) (path f))
      else str_path (path f))"

definition extract_documents ::
  "(byte list \<Rightarrow> byte list) \<Rightarrow> config \<Rightarrow> string list \<Rightarrow> html_file \<Rightarrow> exc + document list"
where
  "extract_documents sha cfg outdir f =
     (case read_text f of
        Inl e \<Rightarrow>
          (if isinstance e ''OSError'' \<or> isinstance e ''UnicodeDecodeError'' then Inr []
           else Inl e)
      | Inr soup' \<Rightarrow>
          (case get_content_element cfg soup' of
             None \<Rightarrow> Inr []
           | Some content' \<Rightarrow>
               (let url_base = get_relative_url outdir f;
                    h = \<lparr>lvl0 = [], lvl1 = [], lvl2 = [], lvl3 = []\<rparr>
                in Inr (extract_loop sha cfg url_base h
                          (find_all content' [''h1'', ''h2'', ''h3'', ''h4'', ''p'', ''li''])))))"

section \<open>The Typesense backend (backends/typesense.py)\<close>

text \<open>
  What lies outside the backend: the answers of the server to the successive health
  checks, to the deletion and the creation of the collection and to the bulk import,
  and the HTML files of the build output. Each answer is a value or an exception.
\<close>

record import_item =
  success :: "bool option"
  error :: "string option"

record world =
  is_healthy :: "nat \<Rightarrow> exc + bool"
  collection_delete :: "exc + unit"
  collections_create :: "exc + unit"
  documents_import :: "document list \<Rightarrow> exc + import_item list"
  outdir :: "string list"
  html_files :: "html_file list"
  sha256 :: "byte list \<Rightarrow> byte list"

text \<open>
  The backend object: the cached verdict \<open>_server_available\<close>, and the calls it has
  made that the outside can see, oldest first.
\<close>

datatype event = HealthCheck | Sleep real | Warning_failed_imports nat

record backend =
  server_available :: "bool option"
  trace :: "event list"

definition health_checks :: "backend \<Rightarrow> nat" where
  "health_checks b = length (filter (\<lambda>ev. ev = HealthCheck) (trace b))"

definition MAX_RETRIES :: nat where
  "MAX_RETRIES = 3"

definition INITIAL_BACKOFF_SECONDS :: real where
  "INITIAL_BACKOFF_SECONDS = 1"

definition BACKOFF_MULTIPLIER :: real where
  "BACKOFF_MULTIPLIER = 2"

text \<open>The \<open>try\<close> block of one attempt: what the health check's answer leads to.\<close>

datatype attempt_result = Healthy | AuthFailed | Retry | Propagate exc

definition try_health :: "exc + bool \<Rightarrow> attempt_result" where
  "try_health r =
     (case r of
        Inr health \<Rightarrow> if health then Healthy else Retry
      | Inl e \<Rightarrow>
          if isinstance e ''RequestUnauthorized'' then AuthFailed
          else if isinstance e ''ServiceUnavailable'' then Retry
          else if isinstance e ''Timeout'' \<or> isinstance e ''HTTPStatus0Error'' then Retry
          else if isinstance e ''ConnectionError'' \<or> isinstance e ''TimeoutError''
                  \<or> isinstance e ''OSError'' then Retry
          else Propagate e)"

fun attempt_loop :: "world \<Rightarrow> nat list \<Rightarrow> real \<Rightarrow> backend \<Rightarrow> (exc + bool) \<times> backend" where
  "attempt_loop w [] backoff b = (Inr False, b\<lparr>server_available := Some False\<rparr>)"
| "attempt_loop w (attempt # rest) backoff b =
     (let b1 = b\<lparr>trace := trace b @ [HealthCheck]\<rparr> in
      case try_health (is_healthy w (health_checks b)) of
        Healthy \<Rightarrow> (Inr True, b1\<lparr>server_available := Some True\<rparr>)
      | AuthFailed \<Rightarrow> (Inr False, b1\<lparr>server_available := Some False\<rparr>)
      | Propagate e \<Rightarrow> (Inl e, b1)
      | Retry \<Rightarrow>
          (if attempt < MAX_RETRIES
           then attempt_loop w rest (backoff * BACKOFF_MULTIPLIER)
                  (b1\<lparr>trace := trace b1 @ [Sleep backoff]\<rparr>)
           else attempt_loop w rest backoff b1))"

definition check_connection :: "world \<Rightarrow> backend \<Rightarrow> (exc + bool) \<times> backend" where
  "check_connection w b =
     (case server_available b of
        Some cached \<Rightarrow> (Inr cached, b)
      | None \<Rightarrow> attempt_loop w [1..<MAX_RETRIES + 1] INITIAL_BACKOFF_SECONDS b)"

definition is_available :: "world \<Rightarrow> backend \<Rightarrow> (exc + bool) \<times> backend" where
  "is_available w b = check_connection w b"

definition ensure_collection :: "config \<Rightarrow> world \<Rightarrow> exc + unit" where
  "ensure_collection cfg w =
     (case (if typesense_drop_existing cfg then
              (case collection_delete w of
                 Inr u \<Rightarrow> Inr ()
               | Inl e \<Rightarrow> if isinstance e ''ObjectNotFound'' then Inr () else Inl e)
            else Inr ()) of
        Inl e \<Rightarrow> Inl e
      | Inr u \<Rightarrow>
          (case collections_create w of
             Inr u \<Rightarrow> Inr ()
           | Inl e \<Rightarrow>
               if isinstance e ''Exception'' then
                 (if contains ''already exists'' (lower (message e)) then Inr () else Inl e)
               else Inl e))"

text \<open>The loop over the files, \<open>documents.extend(self._extract_documents(html_file))\<close>.\<close>

fun extract_all ::
  "(byte list \<Rightarrow> byte list) \<Rightarrow> config \<Rightarrow> string list \<Rightarrow> html_file list \<Rightarrow> exc + document list"
where
  "extract_all sha cfg outdir' [] = Inr []"
| "extract_all sha cfg outdir' (f # fs) =
     (case extract_documents sha cfg outdir' f of
        Inl e \<Rightarrow> Inl e
      | Inr ds \<Rightarrow>
          (case extract_all sha cfg outdir' fs of
             Inl e \<Rightarrow> Inl e
           | Inr ds' \<Rightarrow> Inr (ds @ ds')))"

text \<open>The count of the items of the import's answer that report a failure.\<close>

definition count_import_errors :: "import_item list \<Rightarrow> nat" where
  "count_import_errors result =
     length (filter (\<lambda>item. \<not> (case success item of None \<Rightarrow> True | Some ok \<Rightarrow> ok)) result)"

definition index_all :: "config \<Rightarrow> world \<Rightarrow> backend \<Rightarrow> (exc + nat) \<times> backend" where
  "index_all cfg w b =
     (case check_connection w b of
        (Inl e, b1) \<Rightarrow> (Inl e, b1)
      | (Inr ok, b1) \<Rightarrow>
          if \<not> ok then (Inr 0, b1)
          else
            (case ensure_collection cfg w of
               Inl e \<Rightarrow> (Inl e, b1)
             | Inr u \<Rightarrow>
                 (case extract_all (sha256 w) cfg (outdir w) (html_files w) of
                    Inl e \<Rightarrow> (Inl e, b1)
                  | Inr documents \<Rightarrow>
                      if documents \<noteq> [] then
                        (case documents_import w documents of
                           Inr result \<Rightarrow>
                             (let error_count = count_import_errors result;
                                  b2 = (if error_count > 0
                                        then b1\<lparr>trace := trace b1 @ [Warning_failed_imports error_count]\<rparr>
                                        else b1)
                              in (Inr (length documents), b2))
                         | Inl e \<Rightarrow>
                             if isinstance e ''ServiceUnavailable'' then (Inr 0, b1)
                             else if isinstance e ''Timeout'' \<or> isinstance e ''HTTPStatus0Error''
                               then (Inr 0, b1)
                             else if isinstance e ''ConnectionError'' \<or> isinstance e ''TimeoutError''
                                     \<or> isinstance e ''OSError''
                               then (Inr 0, b1)
                             else (Inl e, b1))
                      else (Inr (length documents), b1))))"

section \<open>The Pagefind backend (backends/pagefind.py)\<close>

text \<open>
  What lies outside: whether the build directory exists, whether the Python package
  \<open>pagefind\<close> is importable, what \<open>shutil.which\<close> answers, and what running a command
  does: it cannot be started (an exception), or it runs for some seconds and ends with
  an exit code and the bytes of its two outputs. The interpreter contributes the
  decoding of the locale's encoding (\<open>None\<close> for bytes that are not text in it) and
  the limit \<open>sys.get_int_max_str_digits()\<close> on the digits that \<open>int\<close> converts (4300
  by default from Python 3.11 on, 0 for no limit).
\<close>

datatype process =
  Fails exc | Runs (seconds: real) (returncode: int) (stdout: "byte list") (stderr: "byte list")

datatype completed = Completed int string string

record pagefind_world =
  build_dir :: string
  build_dir_exists :: bool
  python_pagefind_installed :: bool
  sys_executable :: string
  which :: "string \<Rightarrow> string option"
  spawn :: "string list \<Rightarrow> process"
  decode :: "byte list \<Rightarrow> string option"
  int_max_str_digits :: nat

text \<open>
  \<open>subprocess.run(cmd, capture_output=True, text=True, timeout=t, check=False)\<close>: a
  process that is still running after \<open>t\<close> seconds is killed and \<open>TimeoutExpired\<close> is
  raised; the outputs of a process that ended in time are decoded, and bytes that are
  not text raise \<open>UnicodeDecodeError\<close>, a \<open>ValueError\<close>.
\<close>

definition decode_error :: exc where
  "decode_error =
     Exc [''UnicodeDecodeError'', ''UnicodeError'', ''ValueError'', ''Exception'']
       ''codec can't decode byte''"

definition subprocess_run :: "pagefind_world \<Rightarrow> string list \<Rightarrow> real \<Rightarrow> exc + completed" where
  "subprocess_run w cmd timeout =
     (case spawn w cmd of
        Fails e \<Rightarrow> Inl e
      | Runs secs rc out err \<Rightarrow>
          if secs > timeout then Inl (Exc [''TimeoutExpired'', ''SubprocessError'', ''Exception''] [])
          else
            (case decode w out of
               None \<Rightarrow> Inl decode_error
             | Some out' \<Rightarrow>
                 (case decode w err of
                    None \<Rightarrow> Inl decode_error
                  | Some err' \<Rightarrow> Inr (Completed rc out' err'))))"

definition PAGEFIND_CLI :: string where
  "PAGEFIND_CLI = ''pagefind''"

definition DEFAULT_OUTPUT_DIR :: string where
  "DEFAULT_OUTPUT_DIR = ''_pagefind''"

definition find_pagefind_command :: "pagefind_world \<Rightarrow> string list option" where
  "find_pagefind_command w =
     (if python_pagefind_installed w then Some [sys_executable w, ''-m'', ''pagefind'']
      else if truthy (which w PAGEFIND_CLI) then Some [PAGEFIND_CLI]
      else case which w ''npx'' of
             None \<Rightarrow> None
           | Some npx \<Rightarrow> if npx \<noteq> [] then Some [npx, ''pagefind''] else None)"

subsection \<open>The three regular expressions\<close>

text \<open>
  The pieces of the patterns, each giving the remainders of the input after its
  possible matches in the order in which the backtracking matcher tries them (a greedy
  repetition tries the longest first). Literals are compared ignoring case.
\<close>

definition lit :: "string \<Rightarrow> string \<Rightarrow> string list" where
  "lit p s = (if lower (take (length p) s) = lower p then [drop (length p) s] else [])"

definition plus :: "(char \<Rightarrow> bool) \<Rightarrow> string \<Rightarrow> (string \<times> string) list" where
  "plus P s = map (\<lambda>k. (take k s, drop k s)) (rev [1..<Suc (length (takeWhile P s))])"

definition opt :: "string \<Rightarrow> string \<Rightarrow> string list" where
  "opt p s = lit p s @ [s]"

text \<open>
  The matches of each pattern at the start of the input: the text of group 1 of each,
  in the matcher's order.
\<close>

definition match_indexed :: "string \<Rightarrow> string list" where
  "match_indexed s =
     concat (map (\<lambda>r1. concat (map (\<lambda>(sp, r2). concat (map (\<lambda>(ds, r3).
       concat (map (\<lambda>(sp', r4). map (\<lambda>r5. ds) (lit ''page'' r4)) (plus is_space r3)))
       (plus is_digit r2))) (plus is_space r1))) (lit ''Indexed'' s))"

definition match_on :: "string \<Rightarrow> string list" where
  "match_on s =
     concat (map (\<lambda>r1. concat (map (\<lambda>(sp, r2). concat (map (\<lambda>(ds, r3).
       concat (map (\<lambda>(sp', r4). map (\<lambda>r5. ds) (lit ''page'' r4)) (plus is_space r3)))
       (plus is_digit r2))) (plus is_space r1))) (lit ''on'' s))"

definition match_pages :: "string \<Rightarrow> string list" where
  "match_pages s =
     concat (map (\<lambda>(ds, r1). concat (map (\<lambda>(sp, r2). concat (map (\<lambda>r3.
       map (\<lambda>r4. ds) (opt ''s'' r3)) (lit ''page'' r2))) (plus is_space r1)))
       (plus is_digit s))"

text \<open>\<open>re.search\<close>: the first match at the leftmost position that has one.\<close>

fun search :: "(string \<Rightarrow> string list) \<Rightarrow> string \<Rightarrow> string option" where
  "search m [] = (case m [] of [] \<Rightarrow> None | g # gs \<Rightarrow> Some g)"
| "search m (c # cs) = (case m (c # cs) of [] \<Rightarrow> search m cs | g # gs \<Rightarrow> Some g)"

text \<open>
  \<open>int(digits)\<close> on a string of decimal digits: its value, or \<open>ValueError\<close> when
  the interpreter's limit is set and the string has more digits than the limit.
\<close>

definition decimal_value :: "string \<Rightarrow> int" where
  "decimal_value ds = foldl (\<lambda>n c. 10 * n + (int (of_char c) - 48)) 0 ds"

definition digits_limit_error :: exc where
  "digits_limit_error =
     Exc [''ValueError'', ''Exception''] ''Exceeds the limit for integer string conversion''"

definition int_of_digits :: "nat \<Rightarrow> string \<Rightarrow> exc + int" where
  "int_of_digits limit ds =
     (if 0 < limit \<and> limit < length ds then Inl digits_limit_error
      else Inr (decimal_value ds))"

definition parse_page_count :: "pagefind_world \<Rightarrow> string \<Rightarrow> exc + int" where
  "parse_page_count w output =
     (case search match_indexed output of
        Some g \<Rightarrow> int_of_digits (int_max_str_digits w) g
      | None \<Rightarrow>
     (case search match_on output of
        Some g \<Rightarrow> int_of_digits (int_max_str_digits w) g
      | None \<Rightarrow>
     (case search match_pages output of
        Some g \<Rightarrow> int_of_digits (int_max_str_digits w) g
      | None \<Rightarrow> Inr 0)))"

text \<open>The command line that \<open>_run_pagefind\<close> builds.\<close>

definition site_command :: "pagefind_world \<Rightarrow> string list \<Rightarrow> string list" where
  "site_command w pagefind_cmd =
     pagefind_cmd @ [''--site'', build_dir w, ''--output-path'',
                     build_dir w @ ''/'' @ DEFAULT_OUTPUT_DIR]"

definition run_pagefind :: "pagefind_world \<Rightarrow> string list \<Rightarrow> exc + int" where
  "run_pagefind w pagefind_cmd =
     (let cmd = site_command w pagefind_cmd in
      case subprocess_run w cmd 300 of
        Inl e \<Rightarrow>
          if isinstance e ''TimeoutExpired'' then Inr 0
          else if isinstance e ''FileNotFoundError'' then Inr 0
          else if isinstance e ''OSError'' then Inr 0
          else Inl e
      | Inr (Completed rc out err) \<Rightarrow>
          if rc \<noteq> 0 then Inr 0 else parse_page_count w out)"

definition pagefind_index_all :: "pagefind_world \<Rightarrow> exc + int" where
  "pagefind_index_all w =
     (if \<not> build_dir_exists w then Inr 0
      else case find_pagefind_command w of
             None \<Rightarrow> Inr 0
           | Some pagefind_cmd \<Rightarrow> run_pagefind w pagefind_cmd)"

text \<open>
  The two kinds of failed health check that \<open>_check_connection\<close> tells apart: a
  transient one (the server answers "not healthy", or the call raises
  \<open>ServiceUnavailable\<close>, \<open>Timeout\<close>, \<open>HTTPStatus0Error\<close>, \<open>ConnectionError\<close>,
  \<open>TimeoutError\<close> or \<open>OSError\<close>), and a rejected API key (\<open>RequestUnauthorized\<close>).
\<close>

definition transient_failure :: "exc + bool \<Rightarrow> bool" where
  "transient_failure r =
     (case r of
        Inr health \<Rightarrow> \<not> health
      | Inl e \<Rightarrow>
          \<not> isinstance e ''RequestUnauthorized'' \<and>
          (isinstance e ''ServiceUnavailable'' \<or> isinstance e ''Timeout''
           \<or> isinstance e ''HTTPStatus0Error'' \<or> isinstance e ''ConnectionError''
           \<or> isinstance e ''TimeoutError'' \<or> isinstance e ''OSError''))"

definition authentication_failure :: "exc + bool \<Rightarrow> bool" where
  "authentication_failure r =
     (case r of Inr health \<Rightarrow> False | Inl e \<Rightarrow> isinstance e ''RequestUnauthorized'')"

subsection \<open>The hierarchy rule in words\<close>

text \<open>
  The rule the snapshots are to follow, stated on the list of the elements seen so far
  on the page (those with text, oldest first) and independently of the loop: the field
  of a level is the text of the most recent heading of that level, unless a heading of
  a higher level has been seen since, which resets the field to the empty string.
  Level 0 is \<open>h1\<close>, level 3 is \<open>h4\<close>.
\<close>

definition heading_level :: "element \<Rightarrow> nat option" where
  "heading_level e =
     (let t = name (elem e) in
      if t = ''h1'' then Some 0 else if t = ''h2'' then Some 1
      else if t = ''h3'' then Some 2 else if t = ''h4'' then Some 3 else None)"

definition since_higher :: "nat \<Rightarrow> element list \<Rightarrow> element list" where
  "since_higher k es =
     rev (takeWhile (\<lambda>e. case heading_level e of None \<Rightarrow> True | Some j \<Rightarrow> k \<le> j) (rev es))"

definition current_heading :: "nat \<Rightarrow> element list \<Rightarrow> string" where
  "current_heading k es =
     (let hs = filter (\<lambda>e. heading_level e = Some k) (since_higher k es) in
      if hs = [] then [] else get_text_strip (elem (last hs)))"

definition seen_hierarchy :: "element list \<Rightarrow> hierarchy" where
  "seen_hierarchy es =
     \<lparr>lvl0 = current_heading 0 es, lvl1 = current_heading 1 es,
      lvl2 = current_heading 2 es, lvl3 = current_heading 3 es\<rparr>"

text \<open>The hierarchy fields a document carries.\<close>

definition snapshot :: "document \<Rightarrow> hierarchy" where
  "snapshot d =
     \<lparr>lvl0 = hierarchy_lvl0 d, lvl1 = hierarchy_lvl1 d,
      lvl2 = hierarchy_lvl2 d, lvl3 = hierarchy_lvl3 d\<rparr>"

definition with_text :: "element list \<Rightarrow> element list" where
  "with_text es = filter (\<lambda>e. get_text_strip (elem e) \<noteq> []) es"

text \<open>
  The exceptions that the \<open>except\<close> clauses around the bulk import catch:
  \<open>ServiceUnavailable\<close>, \<open>Timeout\<close>, \<open>HTTPStatus0Error\<close>, \<open>ConnectionError\<close>,
  \<open>TimeoutError\<close> and \<open>OSError\<close>.
\<close>

definition network_failure :: "exc \<Rightarrow> bool" where
  "network_failure e =
     (isinstance e ''ServiceUnavailable'' \<or> isinstance e ''Timeout''
      \<or> isinstance e ''HTTPStatus0Error'' \<or> isinstance e ''ConnectionError''
      \<or> isinstance e ''TimeoutError'' \<or> isinstance e ''OSError'')"

text \<open>
  The page count in words: the three patterns "Indexed N pages", "on N pages" and
  "N pages" are searched in this order, and the number of the first that is found is
  the count; without any, the count is 0.
\<close>

definition first_pattern_count :: "nat \<Rightarrow> string \<Rightarrow> exc + int" where
  "first_pattern_count limit output =
     (case List.map_filter (\<lambda>m. search m output) [match_indexed, match_on, match_pages] of
        [] \<Rightarrow> Inr 0
      | g # gs \<Rightarrow> int_of_digits limit g)"

section \<open>Example inputs\<close>

definition docs_config :: config where
  "docs_config =
     \<lparr>typesense_backend = ''auto'',
      typesense_api_key = Some ''xyz'',
      typesense_collection_name = ''sphinx_docs'',
      typesense_doc_version = Some [],
      typesense_content_selectors = None,
      typesense_drop_existing = False,
      html_theme = Some ''unknown_theme_xyz'',
      language = Some ''en''\<rparr>"

text \<open>
  The page \<open>guide.html\<close>:
  \<^verbatim>\<open><html><body><div class="body"><h1 id="x">Install</h1><p>Steps here</p></div></body></html>\<close>
\<close>

definition install_h1 :: tag where
  "install_h1 = Tag ''h1'' [(''id'', ''x'')] [NavigableString ''Install'']"

definition steps_p :: tag where
  "steps_p = Tag ''p'' [] [NavigableString ''Steps here'']"

definition guide_div :: tag where
  "guide_div = Tag ''div'' [(''class'', ''body'')] [Element install_h1, Element steps_p]"

definition guide_body :: tag where
  "guide_body = Tag ''body'' [] [Element guide_div]"

definition guide_content :: element where
  "guide_content =
     \<lparr>elem = guide_div, previous_sibling = None,
      parents = [guide_body, Tag ''html'' [] [Element guide_body]]\<rparr>"

definition guide_soup :: soup where
  "guide_soup selector = (if selector = ''.body'' then Some guide_content else None)"

definition guide_html :: html_file where
  "guide_html = \<lparr>path = [''build'', ''html'', ''guide.html''], read_text = Inr guide_soup\<rparr>"

text \<open>Exceptions of the Typesense client.\<close>

definition unavailable :: exc where
  "unavailable =
     Exc [''ServiceUnavailable'', ''TypesenseClientError'', ''OSError'', ''Exception'']
       ''Service Unavailable''"

definition unauthorized :: exc where
  "unauthorized =
     Exc [''RequestUnauthorized'', ''TypesenseClientError'', ''OSError'', ''Exception'']
       ''Forbidden - a valid x-typesense-api-key header must be sent''"

text \<open>
  A server that accepts every request, as a function of its answers to the health
  checks, over a build output that holds \<open>guide.html\<close>. The digest of the examples is
  a constant; the theorems hold for every digest function.
\<close>

definition example_world :: "(nat \<Rightarrow> exc + bool) \<Rightarrow> world" where
  "example_world answers =
     \<lparr>is_healthy = answers,
      collection_delete = Inr (),
      collections_create = Inr (),
      documents_import = (\<lambda>ds. Inr (map (\<lambda>d. \<lparr>success = Some True, error = None\<rparr>) ds)),
      outdir = [''build'', ''html''],
      html_files = [guide_html],
      sha256 = (\<lambda>bs. replicate 32 0)\<rparr>"

definition unauthorized_at :: "nat \<Rightarrow> nat \<Rightarrow> exc + bool" where
  "unauthorized_at k n = (if n < k then Inl unavailable else Inl unauthorized)"

definition fresh_backend :: backend where
  "fresh_backend = \<lparr>server_available = None, trace = []\<rparr>"

text \<open>
  A heading that carries its own id, a permalink anchor inside it, an anchor before
  it and an enclosing section with an id:
  \<^verbatim>\<open><section id="s"><a id="c"></a><h2 id="a"><a id="b" name="n"></a>Title</h2></section>\<close>
\<close>

definition titled_h2 :: tag where
  "titled_h2 =
     Tag ''h2'' [(''id'', ''a'')]
       [Element (Tag ''a'' [(''id'', ''b''), (''name'', ''n'')] []), NavigableString ''Title'']"

definition titled_section :: tag where
  "titled_section =
     Tag ''section'' [(''id'', ''s'')] [Element (Tag ''a'' [(''id'', ''c'')] []), Element titled_h2]"

definition titled_heading :: element where
  "titled_heading =
     \<lparr>elem = titled_h2, previous_sibling = Some (Tag ''a'' [(''id'', ''c'')] []),
      parents = [titled_section]\<rparr>"

text \<open>A heading with nothing but white space in it: \<^verbatim>\<open><h1 id="e"> <span>  </span></h1>\<close>\<close>

definition blank_heading :: element where
  "blank_heading =
     \<lparr>elem = Tag ''h1'' [(''id'', ''e'')]
               [NavigableString '' '', Element (Tag ''span'' [] [NavigableString ''  ''])],
      previous_sibling = None, parents = []\<rparr>"

text \<open>
  A paragraph of 150 characters with an id, \<^verbatim>\<open><p id="a">aaa...abccc...c</p>\<close>: 99 times
  \<open>a\<close>, one \<open>b\<close>, 50 times \<open>c\<close>.
\<close>

definition long_text :: string where
  "long_text = replicate 99 CHR ''a'' @ ''b'' @ replicate 50 CHR ''c''"

definition long_paragraph :: element where
  "long_paragraph =
     \<lparr>elem = Tag ''p'' [(''id'', ''a'')] [NavigableString long_text],
      previous_sibling = None, parents = []\<rparr>"

text \<open>
  A function in the place of the digest that shows what it was given: the number of
  bytes and the last byte, then zeros.
\<close>

definition length_and_last :: "byte list \<Rightarrow> byte list" where
  "length_and_last bs = [of_nat (length bs), last bs] @ replicate 30 0"

definition some_hierarchy :: hierarchy where
  "some_hierarchy = \<lparr>lvl0 = ''Guide'', lvl1 = ''Setup'', lvl2 = ''Linux'', lvl3 = ''Notes''\<rparr>"

text \<open>
  The page \<open>manual.html\<close>, whose second \<open>h1\<close> comes after an \<open>h2\<close> and an \<open>h3\<close>:
  \<^verbatim>\<open><main><h1>Install</h1><h2>Linux</h2><h3>Apt</h3><h1>Usage</h1><h2>CLI</h2></main>\<close>
\<close>

definition manual_main :: tag where
  "manual_main =
     Tag ''main'' []
       [Element (Tag ''h1'' [] [NavigableString ''Install'']),
        Element (Tag ''h2'' [] [NavigableString ''Linux'']),
        Element (Tag ''h3'' [] [NavigableString ''Apt'']),
        Element (Tag ''h1'' [] [NavigableString ''Usage'']),
        Element (Tag ''h2'' [] [NavigableString ''CLI''])]"

definition manual_content :: element where
  "manual_content = \<lparr>elem = manual_main, previous_sibling = None, parents = []\<rparr>"

definition manual_soup :: soup where
  "manual_soup selector = (if selector = ''main'' then Some manual_content else None)"

definition manual_html :: html_file where
  "manual_html = \<lparr>path = [''build'', ''html'', ''manual.html''], read_text = Inr manual_soup\<rparr>"

definition manual_documents :: "document list" where
  "manual_documents =
     (case extract_documents (\<lambda>bs. replicate 32 0) docs_config [''build'', ''html''] manual_html of
        Inr ds \<Rightarrow> ds
      | Inl e \<Rightarrow> [])"

text \<open>
  A page whose main element is found by the selectors \<open>.document\<close> and
  \<open>[role=main]\<close> only: \<^verbatim>\<open><body><div class="document" role="main"><p>Text</p></div></body>\<close>
\<close>

definition document_div :: element where
  "document_div =
     \<lparr>elem = Tag ''div'' [(''class'', ''document''), (''role'', ''main'')]
               [Element (Tag ''p'' [] [NavigableString ''Text''])],
      previous_sibling = None,
      parents = [Tag ''body'' []
                  [Element (Tag ''div'' [(''class'', ''document''), (''role'', ''main'')]
                     [Element (Tag ''p'' [] [NavigableString ''Text''])])]]\<rparr>"

definition document_soup :: soup where
  "document_soup selector =
     (if selector = ''.document'' \<or> selector = ''[role=main]'' then Some document_div else None)"

text \<open>The documents of \<open>guide.html\<close>.\<close>

definition guide_documents :: "document list" where
  "guide_documents =
     (case extract_all (\<lambda>bs. replicate 32 0) docs_config [''build'', ''html''] [guide_html] of
        Inr ds \<Rightarrow> ds
      | Inl e \<Rightarrow> [])"

text \<open>Servers that pass the health check and then fail at one request.\<close>

definition healthy_world :: world where
  "healthy_world = example_world (\<lambda>n. Inr True)"

definition create_fails_world :: world where
  "create_fails_world = healthy_world\<lparr>collections_create := Inl unavailable\<rparr>"

definition import_fails_world :: world where
  "import_fails_world = healthy_world\<lparr>documents_import := (\<lambda>ds. Inl unavailable)\<rparr>"

definition item_fails_world :: world where
  "item_fails_world =
     healthy_world\<lparr>documents_import :=
       (\<lambda>ds. Inr [\<lparr>success = Some True, error = None\<rparr>,
                  \<lparr>success = Some False, error = Some ''Bad JSON''\<rparr>])\<rparr>"

definition down_world :: world where
  "down_world = example_world (\<lambda>n. Inl unavailable)"

text \<open>
  A build with the Python package of Pagefind installed, as a function of what the
  command does, under a locale whose encoding is ASCII (a byte above 127 is not text)
  and the default limit on digits.
\<close>

definition ascii_decode :: "byte list \<Rightarrow> string option" where
  "ascii_decode bs =
     (if list_all (\<lambda>b. unat b < 128) bs then Some (map (\<lambda>b. char_of (unat b)) bs) else None)"

definition pagefind_example :: "process \<Rightarrow> pagefind_world" where
  "pagefind_example p =
     \<lparr>build_dir = ''/docs/_build/html'',
      build_dir_exists = True,
      python_pagefind_installed = True,
      sys_executable = ''/usr/bin/python3'',
      which = (\<lambda>c. None),
      spawn = (\<lambda>cmd. p),
      decode = ascii_decode,
      int_max_str_digits = 4300\<rparr>"

definition file_not_found :: exc where
  "file_not_found = Exc [''FileNotFoundError'', ''OSError'', ''Exception''] ''No such file or directory''"

section \<open>Backend selection\<close>

text \<open>
  C6. With the backend set to \<open>auto\<close>, \<open>get_effective_backend\<close> answers
  \<open>typesense\<close> when an admin API key is present (a non-empty value in the
  configuration or in the environment variable \<open>TYPESENSE_API_KEY\<close>) and
  \<open>pagefind\<close> when none is present anywhere; an explicit \<open>typesense\<close> or
  \<open>pagefind\<close> is returned unchanged whatever the keys are.
\<close>

theorem get_effective_backend_resolution:
  "(typesense_backend cfg = ''auto'' \<and>
      (truthy (typesense_api_key cfg) \<or> truthy (env ENV_API_KEY))
      \<longrightarrow> get_effective_backend cfg env = ''typesense'') \<and>
   (typesense_backend cfg = ''auto'' \<and>
      \<not> truthy (typesense_api_key cfg) \<and> \<not> truthy (env ENV_API_KEY)
      \<longrightarrow> get_effective_backend cfg env = ''pagefind'') \<and>
   (typesense_backend cfg = ''typesense'' \<or> typesense_backend cfg = ''pagefind''
      \<longrightarrow> get_effective_backend cfg env = typesense_backend cfg)"
  by (auto simp: get_effective_backend_def Let_def)

theorem get_effective_backend_resolution_witness:
  "get_effective_backend docs_config Map.empty = ''typesense'' \<and>
   get_effective_backend (docs_config\<lparr>typesense_api_key := Some []\<rparr>)
     [ENV_API_KEY \<mapsto> ''k''] = ''typesense'' \<and>
   get_effective_backend (docs_config\<lparr>typesense_api_key := None\<rparr>) Map.empty = ''pagefind'' \<and>
   get_effective_backend (docs_config\<lparr>typesense_backend := ''pagefind''\<rparr>) Map.empty
     = ''pagefind'' \<and>
   get_effective_backend (docs_config\<lparr>typesense_backend := ''typesense'', typesense_api_key := None\<rparr>)
     Map.empty = ''typesense''"
  using get_effective_backend_resolution [of docs_config Map.empty]
    get_effective_backend_resolution
      [of "docs_config\<lparr>typesense_api_key := Some []\<rparr>" "[ENV_API_KEY \<mapsto> ''k'']"]
    get_effective_backend_resolution [of "docs_config\<lparr>typesense_api_key := None\<rparr>" Map.empty]
    get_effective_backend_resolution [of "docs_config\<lparr>typesense_backend := ''pagefind''\<rparr>" Map.empty]
    get_effective_backend_resolution
      [of "docs_config\<lparr>typesense_backend := ''typesense'', typesense_api_key := None\<rparr>" Map.empty]
  by (simp add: docs_config_def truthy_def)

section \<open>Connection check and retry\<close>

lemma try_health_transient: "transient_failure r \<Longrightarrow> try_health r = Retry"
  by (auto simp: transient_failure_def try_health_def split: sum.splits)

lemma try_health_authentication: "authentication_failure r \<Longrightarrow> try_health r = AuthFailed"
  by (auto simp: authentication_failure_def try_health_def split: sum.splits)

lemma range_attempts: "[1..<MAX_RETRIES + 1] = [1, 2, 3]"
  by (simp add: MAX_RETRIES_def upt_rec)

lemma health_checks_check [simp]:
  "health_checks (b\<lparr>trace := trace b @ [HealthCheck]\<rparr>) = Suc (health_checks b)"
  by (simp add: health_checks_def)

text \<open>
  C3. On a backend whose verdict is not cached yet: if the three health checks of
  \<open>is_available\<close> all fail transiently, the answer is false and the calls made are
  a check, a sleep of 1 second, a check, a sleep of 2 seconds and a check, with no
  sleep after the last check. If a check is answered by an authentication failure
  (the first, or the second or third after transient failures), the answer is false
  and that check is the last call: no further check and no sleep follows it.
\<close>

theorem is_available_retry_schedule:
  assumes fresh: "server_available b = None"
  shows
   "((\<forall>i<3. transient_failure (is_healthy w (health_checks b + i))) \<longrightarrow>
       is_available w b =
         (Inr False,
          b\<lparr>server_available := Some False,
            trace := trace b @ [HealthCheck, Sleep 1, HealthCheck, Sleep 2, HealthCheck]\<rparr>)) \<and>
    (authentication_failure (is_healthy w (health_checks b)) \<longrightarrow>
       is_available w b =
         (Inr False, b\<lparr>server_available := Some False, trace := trace b @ [HealthCheck]\<rparr>)) \<and>
    (transient_failure (is_healthy w (health_checks b)) \<and>
     authentication_failure (is_healthy w (health_checks b + 1)) \<longrightarrow>
       is_available w b =
         (Inr False,
          b\<lparr>server_available := Some False,
            trace := trace b @ [HealthCheck, Sleep 1, HealthCheck]\<rparr>)) \<and>
    (transient_failure (is_healthy w (health_checks b)) \<and>
     transient_failure (is_healthy w (health_checks b + 1)) \<and>
     authentication_failure (is_healthy w (health_checks b + 2)) \<longrightarrow>
       is_available w b =
         (Inr False,
          b\<lparr>server_available := Some False,
            trace := trace b @ [HealthCheck, Sleep 1, HealthCheck, Sleep 2, HealthCheck]\<rparr>))"
proof -
  have unfold: "is_available w b = attempt_loop w [1, 2, 3] 1 b"
    using fresh
    unfolding is_available_def check_connection_def range_attempts INITIAL_BACKOFF_SECONDS_def
    by (simp del: attempt_loop.simps)
  have step2: "health_checks (b\<lparr>trace := trace b @ [HealthCheck, Sleep 1]\<rparr>) = Suc (health_checks b)"
    by (simp add: health_checks_def)
  have step3:
    "health_checks (b\<lparr>trace := trace b @ [HealthCheck, Sleep 1, HealthCheck, Sleep 2]\<rparr>)
       = Suc (Suc (health_checks b))"
    by (simp add: health_checks_def)
  have all3: "is_available w b =
         (Inr False,
          b\<lparr>server_available := Some False,
            trace := trace b @ [HealthCheck, Sleep 1, HealthCheck, Sleep 2, HealthCheck]\<rparr>)"
    if "\<forall>i<3. transient_failure (is_healthy w (health_checks b + i))"
  proof -
    have t0: "try_health (is_healthy w (health_checks b)) = Retry"
      using that [THEN spec, of 0] by (simp add: try_health_transient)
    have t1: "try_health (is_healthy w (Suc (health_checks b))) = Retry"
      using that [THEN spec, of 1] by (simp add: try_health_transient)
    have t2: "try_health (is_healthy w (Suc (Suc (health_checks b)))) = Retry"
      using that [THEN spec, of 2] by (simp add: try_health_transient)
    show ?thesis
      unfolding unfold
      by (simp add: Let_def t0 t1 t2 step2 step3 MAX_RETRIES_def BACKOFF_MULTIPLIER_def)
  qed
  have auth0: "is_available w b =
         (Inr False, b\<lparr>server_available := Some False, trace := trace b @ [HealthCheck]\<rparr>)"
    if "authentication_failure (is_healthy w (health_checks b))"
    unfolding unfold using try_health_authentication [OF that]
    by (simp add: Let_def)
  have auth1: "is_available w b =
         (Inr False,
          b\<lparr>server_available := Some False,
            trace := trace b @ [HealthCheck, Sleep 1, HealthCheck]\<rparr>)"
    if "transient_failure (is_healthy w (health_checks b))"
      and "authentication_failure (is_healthy w (health_checks b + 1))"
    unfolding unfold
    using try_health_transient [OF that(1)] try_health_authentication [OF that(2)]
    by (simp add: Let_def step2 MAX_RETRIES_def BACKOFF_MULTIPLIER_def)
  have auth2: "is_available w b =
         (Inr False,
          b\<lparr>server_available := Some False,
            trace := trace b @ [HealthCheck, Sleep 1, HealthCheck, Sleep 2, HealthCheck]\<rparr>)"
    if "transient_failure (is_healthy w (health_checks b))"
      and "transient_failure (is_healthy w (health_checks b + 1))"
      and "authentication_failure (is_healthy w (health_checks b + 2))"
    unfolding unfold
    using try_health_transient [OF that(1)] try_health_transient [OF that(2)]
      try_health_authentication [OF that(3)]
    by (simp add: Let_def step2 step3 MAX_RETRIES_def BACKOFF_MULTIPLIER_def)
  show ?thesis
    using all3 auth0 auth1 auth2 by blast
qed

lemma example_answers:
  "transient_failure (Inl unavailable)" "authentication_failure (Inl unauthorized)"
  by (simp_all add: transient_failure_def authentication_failure_def unavailable_def
      unauthorized_def isinstance_def)

theorem is_available_retry_schedule_witness:
  "is_available (example_world (\<lambda>n. Inl unavailable)) fresh_backend =
     (Inr False,
      \<lparr>server_available = Some False,
       trace = [HealthCheck, Sleep 1, HealthCheck, Sleep 2, HealthCheck]\<rparr>) \<and>
   is_available (example_world (unauthorized_at 0)) fresh_backend =
     (Inr False, \<lparr>server_available = Some False, trace = [HealthCheck]\<rparr>) \<and>
   is_available (example_world (unauthorized_at 1)) fresh_backend =
     (Inr False, \<lparr>server_available = Some False, trace = [HealthCheck, Sleep 1, HealthCheck]\<rparr>) \<and>
   is_available (example_world (unauthorized_at 2)) fresh_backend =
     (Inr False,
      \<lparr>server_available = Some False,
       trace = [HealthCheck, Sleep 1, HealthCheck, Sleep 2, HealthCheck]\<rparr>)"
  using is_available_retry_schedule [of fresh_backend "example_world (\<lambda>n. Inl unavailable)"]
    is_available_retry_schedule [of fresh_backend "example_world (unauthorized_at 0)"]
    is_available_retry_schedule [of fresh_backend "example_world (unauthorized_at 1)"]
    is_available_retry_schedule [of fresh_backend "example_world (unauthorized_at 2)"]
  by (simp add: fresh_backend_def example_world_def unauthorized_at_def health_checks_def
      example_answers)

section \<open>Document factory and anchor resolution\<close>

lemma hex_digit_lowercase: "hex_digit n \<in> set ''0123456789abcdef''"
proof -
  have "n mod 16 < length ''0123456789abcdef''" by simp
  then show ?thesis unfolding hex_digit_def by (rule nth_mem)
qed

lemma hexdigest_lowercase: "set (hexdigest bs) \<subseteq> set ''0123456789abcdef''"
proof
  fix c assume "c \<in> set (hexdigest bs)"
  then obtain n where "c = hex_digit n"
    by (auto simp: hexdigest_def)
  then show "c \<in> set ''0123456789abcdef''"
    by (simp only: hex_digit_lowercase)
qed

text \<open>
  C5. The document that the factory makes from a url base, an element and a content
  text carries that content text, and its url is the url base followed by \<open>#\<close> and
  the anchor when an anchor was resolved (the element's own id, or else what
  \<open>_find_anchor\<close> finds), and the url base otherwise. Its id is the hexadecimal
  digest, in lowercase digits, of the SHA-256 of that url, a colon and the first 100
  characters of the content text, cut to its first 32 characters.
\<close>

theorem document_id_is_truncated_digest:
  "(let d = create_document sha cfg h c url_base e t in
      doc_id d = take 32 (hexdigest (sha (encode (url d @ '':'' @ take 100 c)))) \<and>
      content d = c \<and>
      url_without_anchor d = url_base \<and>
      anchor d = (if get_attr_default (elem e) ''id'' \<noteq> [] then get_attr_default (elem e) ''id''
                  else find_anchor e) \<and>
      url d = (if anchor d = [] then url_base else url_base @ ''#'' @ anchor d) \<and>
      set (doc_id d) \<subseteq> set ''0123456789abcdef'')"
proof -
  have "set (take 32 (hexdigest bs)) \<subseteq> set ''0123456789abcdef''" for bs
    using hexdigest_lowercase [of bs] set_take_subset [of 32 "hexdigest bs"] by blast
  then show ?thesis
    by (simp add: create_document_def Let_def)
qed

lemma long_paragraph_digests:
  "take 32 (hexdigest (length_and_last (encode (''guide.html#a'' @ '':'' @ take 100 long_text))))
     = ''7162'' @ replicate 28 CHR ''0''"
  "take 32 (hexdigest (length_and_last (encode (''guide.html#a'' @ '':'' @ take 100 ''Steps here''))))
     = ''1765'' @ replicate 28 CHR ''0''"
  by code_simp+

theorem document_id_is_truncated_digest_witness:
  "length long_text = 150 \<and>
   url (create_document length_and_last docs_config some_hierarchy long_text ''guide.html''
          long_paragraph ''content'') = ''guide.html#a'' \<and>
   content (create_document length_and_last docs_config some_hierarchy long_text ''guide.html''
          long_paragraph ''content'') = long_text \<and>
   doc_id (create_document length_and_last docs_config some_hierarchy long_text ''guide.html''
          long_paragraph ''content'') = ''7162'' @ replicate 28 CHR ''0'' \<and>
   doc_id (create_document length_and_last docs_config some_hierarchy ''Steps here'' ''guide.html''
          long_paragraph ''content'') = ''1765'' @ replicate 28 CHR ''0''"
proof -
  let ?d = "create_document length_and_last docs_config some_hierarchy long_text ''guide.html''
              long_paragraph ''content''"
  let ?s = "create_document length_and_last docs_config some_hierarchy ''Steps here''
              ''guide.html'' long_paragraph ''content''"
  note d = document_id_is_truncated_digest
      [of length_and_last docs_config some_hierarchy long_text "''guide.html''" long_paragraph
          "''content''", unfolded Let_def]
  note s = document_id_is_truncated_digest
      [of length_and_last docs_config some_hierarchy "''Steps here''" "''guide.html''"
          long_paragraph "''content''", unfolded Let_def]
  have own: "get_attr_default (elem long_paragraph) ''id'' = ''a''"
    by (simp add: long_paragraph_def get_attr_default_def get_attr_def)
  have len: "length long_text = 150"
    by (simp add: long_text_def)
  have ad: "anchor ?d = ''a''"
    using d [THEN conjunct2, THEN conjunct2, THEN conjunct2, THEN conjunct1] by (simp add: own)
  have as: "anchor ?s = ''a''"
    using s [THEN conjunct2, THEN conjunct2, THEN conjunct2, THEN conjunct1] by (simp add: own)
  have ud: "url ?d = ''guide.html#a''"
    using d [THEN conjunct2, THEN conjunct2, THEN conjunct2, THEN conjunct2, THEN conjunct1]
    by (simp add: ad)
  have us: "url ?s = ''guide.html#a''"
    using s [THEN conjunct2, THEN conjunct2, THEN conjunct2, THEN conjunct2, THEN conjunct1]
    by (simp add: as)
  have cd: "content ?d = long_text"
    using d [THEN conjunct2, THEN conjunct1] .
  have id: "doc_id ?d = ''7162'' @ replicate 28 CHR ''0''"
    using d [THEN conjunct1] by (simp only: ud long_paragraph_digests)
  have "is": "doc_id ?s = ''1765'' @ replicate 28 CHR ''0''"
    using s [THEN conjunct1] by (simp only: us long_paragraph_digests)
  show ?thesis
    using len ud cd id "is" by blast
qed

text \<open>
  C7. An element with a non-empty \<open>id\<close> attribute of its own resolves to that id,
  in \<open>_find_anchor\<close> and in the document made for it, whatever anchors lie inside
  it or before it and whatever section encloses it.
\<close>

theorem own_id_wins:
  assumes "get_attr (elem e) ''id'' = Some i" and "i \<noteq> []"
  shows "find_anchor e = i \<and> anchor (create_document sha cfg h c url_base e t) = i"
  using assms
  by (simp add: find_anchor_def create_document_def Let_def truthy_def get_attr_default_def)

theorem own_id_wins_witness:
  "get_attr (elem titled_heading) ''id'' = Some ''a'' \<and>
   find_with_attr (elem titled_heading) ''a'' ''id'' = Some (Tag ''a'' [(''id'', ''b''), (''name'', ''n'')] []) \<and>
   find_anchor titled_heading = ''a'' \<and>
   anchor (create_document (\<lambda>bs. replicate 32 0) docs_config some_hierarchy [] ''guide.html''
             titled_heading ''lvl1'') = ''a''"
proof -
  have own: "get_attr (elem titled_heading) ''id'' = Some ''a''"
    by (simp add: titled_heading_def titled_h2_def get_attr_def)
  have child: "find_with_attr (elem titled_heading) ''a'' ''id''
                 = Some (Tag ''a'' [(''id'', ''b''), (''name'', ''n'')] [])"
    by (simp add: titled_heading_def titled_h2_def find_with_attr_def descendants_def get_attr_def)
  show ?thesis
    using own_id_wins [OF own, of sha_any] own child
      own_id_wins [OF own, of "\<lambda>bs. replicate 32 0" docs_config some_hierarchy "[]"
        "''guide.html''" "''lvl1''"]
    by simp
qed

section \<open>Hierarchy extraction\<close>

lemma extract_loop_skips_empty:
  "extract_loop sha cfg url_base h es =
     extract_loop sha cfg url_base h (filter (\<lambda>e. get_text_strip (elem e) \<noteq> []) es)"
  by (induction es arbitrary: h) (auto simp: process_element_def Let_def split: prod.splits option.splits)

text \<open>
  C9. An element whose stripped text is empty yields no document and leaves the
  hierarchy as it was: the loop goes on from the same hierarchy, and the documents of
  the page are those of the page without the element.
\<close>

theorem empty_text_is_skipped:
  assumes "get_text_strip (elem e) = []"
  shows "process_element sha cfg url_base h e = (h, None) \<and>
         extract_loop sha cfg url_base h (e # es) = extract_loop sha cfg url_base h es"
  using assms by (simp add: process_element_def Let_def)

theorem empty_text_is_skipped_witness:
  "get_text_strip (elem blank_heading) = [] \<and>
   process_element (\<lambda>bs. replicate 32 0) docs_config ''guide.html'' some_hierarchy blank_heading
     = (some_hierarchy, None) \<and>
   extract_loop (\<lambda>bs. replicate 32 0) docs_config ''guide.html'' some_hierarchy [blank_heading] = []"
proof -
  have blank: "get_text_strip (elem blank_heading) = []"
    by (simp add: blank_heading_def get_text_strip_def strip_def is_space_def)
  show ?thesis
    using blank
      empty_text_is_skipped [OF blank, of "\<lambda>bs. replicate 32 0" docs_config "''guide.html''"
        some_hierarchy "[]"]
    by simp
qed

lemma since_higher_snoc:
  "since_higher k (es @ [e]) =
     (case heading_level e of
        None \<Rightarrow> since_higher k es @ [e]
      | Some j \<Rightarrow> if k \<le> j then since_higher k es @ [e] else [])"
  by (simp add: since_higher_def split: option.splits)

lemma current_heading_snoc:
  "current_heading k (es @ [e]) =
     (case heading_level e of
        None \<Rightarrow> current_heading k es
      | Some j \<Rightarrow>
          if j < k then [] else if j = k then get_text_strip (elem e) else current_heading k es)"
  by (auto simp: current_heading_def since_higher_snoc Let_def split: option.splits)

lemma seen_hierarchy_Nil: "seen_hierarchy [] = \<lparr>lvl0 = [], lvl1 = [], lvl2 = [], lvl3 = []\<rparr>"
  by (simp add: seen_hierarchy_def current_heading_def since_higher_def Let_def)

lemma process_element_seen:
  assumes "get_text_strip (elem e) \<noteq> []"
    and "name (elem e) \<in> set [''h1'', ''h2'', ''h3'', ''h4'', ''p'', ''li'']"
  shows "\<exists>d. process_element sha cfg url_base (seen_hierarchy es) e
               = (seen_hierarchy (es @ [e]), Some d) \<and>
             snapshot d = seen_hierarchy (es @ [e])"
proof -
  consider "name (elem e) = ''h1''" | "name (elem e) = ''h2''" | "name (elem e) = ''h3''"
    | "name (elem e) = ''h4''" | "name (elem e) = ''p''" | "name (elem e) = ''li''"
    using assms(2) by auto
  then show ?thesis
    using assms(1)
    by cases
      (simp_all add: process_element_def Let_def seen_hierarchy_def current_heading_snoc
        heading_level_def snapshot_def create_document_def)
qed

lemma extract_loop_snapshots:
  assumes "\<forall>e\<in>set es. name (elem e) \<in> set [''h1'', ''h2'', ''h3'', ''h4'', ''p'', ''li'']"
  shows "map snapshot (extract_loop sha cfg url_base (seen_hierarchy pre) es) =
           map (\<lambda>p. seen_hierarchy (pre @ p)) (tl (prefixes (with_text es)))"
  using assms
proof (induction es arbitrary: pre)
  case Nil
  then show ?case by (simp add: with_text_def)
next
  case (Cons e es)
  show ?case
  proof (cases "get_text_strip (elem e) = []")
    case True
    then have "process_element sha cfg url_base (seen_hierarchy pre) e = (seen_hierarchy pre, None)"
      by (simp add: process_element_def Let_def)
    moreover have "with_text (e # es) = with_text es"
      using True by (simp add: with_text_def)
    ultimately show ?thesis
      using Cons.IH [of pre] Cons.prems by simp
  next
    case False
    then obtain d where d:
      "process_element sha cfg url_base (seen_hierarchy pre) e = (seen_hierarchy (pre @ [e]), Some d)"
      "snapshot d = seen_hierarchy (pre @ [e])"
      using process_element_seen [of e sha cfg url_base pre] Cons.prems by auto
    have w: "with_text (e # es) = e # with_text es"
      using False by (simp add: with_text_def)
    have p: "map g (prefixes (with_text es)) = g [] # map g (tl (prefixes (with_text es)))"
      for g :: "element list \<Rightarrow> hierarchy"
      by (cases "with_text es") simp_all
    show ?thesis
      using Cons.IH [of "pre @ [e]"] Cons.prems d
      by (simp add: w p comp_def)
  qed
qed

lemma extract_loop_reset:
  assumes "d \<in> set (extract_loop sha cfg url_base h es)"
  shows "(doc_type d = ''lvl0'' \<longrightarrow>
            hierarchy_lvl0 d \<noteq> [] \<and> hierarchy_lvl1 d = [] \<and> hierarchy_lvl2 d = []
            \<and> hierarchy_lvl3 d = []) \<and>
         (doc_type d = ''lvl1'' \<longrightarrow>
            hierarchy_lvl1 d \<noteq> [] \<and> hierarchy_lvl2 d = [] \<and> hierarchy_lvl3 d = []) \<and>
         (doc_type d = ''lvl2'' \<longrightarrow> hierarchy_lvl2 d \<noteq> [] \<and> hierarchy_lvl3 d = []) \<and>
         (doc_type d = ''lvl3'' \<longrightarrow> hierarchy_lvl3 d \<noteq> [])"
  using assms
proof (induction es arbitrary: h)
  case Nil
  then show ?case by simp
next
  case (Cons e es)
  obtain h' r where pe: "process_element sha cfg url_base h e = (h', r)"
    by (cases "process_element sha cfg url_base h e")
  show ?case
  proof (cases "r = Some d")
    case True
    with pe show ?thesis
      by (auto simp: process_element_def Let_def create_document_def split: if_splits)
  next
    case False
    with pe Cons.prems have "d \<in> set (extract_loop sha cfg url_base h' es)"
      by (cases r) auto
    then show ?thesis by (rule Cons.IH)
  qed
qed

text \<open>
  C4. On every page, the hierarchy fields of the documents follow the reset rule. The
  snapshots of the documents, in order, are the hierarchies that the rule gives for the
  successive non-empty prefixes of the page's elements with text: an \<open>h1\<close> sets lvl0 and
  empties lvl1 to lvl3, an \<open>h2\<close> sets lvl1 and empties lvl2 and lvl3, an \<open>h3\<close> sets lvl2
  and empties lvl3. So the document of an \<open>h1\<close> has lvl1, lvl2 and lvl3 empty, that of
  an \<open>h2\<close> has lvl2 and lvl3 empty (nothing set before it survives there), and that of
  an \<open>h3\<close> has lvl3 empty.
\<close>

theorem hierarchy_snapshots_follow_reset_rule:
  assumes "extract_documents sha cfg out f = Inr docs"
  shows
    "(\<forall>soup' c. read_text f = Inr soup' \<and> get_content_element cfg soup' = Some c \<longrightarrow>
        map snapshot docs =
          map seen_hierarchy
            (tl (prefixes (with_text (find_all c [''h1'', ''h2'', ''h3'', ''h4'', ''p'', ''li'']))))) \<and>
     (\<forall>d\<in>set docs.
        (doc_type d = ''lvl0'' \<longrightarrow>
           hierarchy_lvl0 d \<noteq> [] \<and> hierarchy_lvl1 d = [] \<and> hierarchy_lvl2 d = []
           \<and> hierarchy_lvl3 d = []) \<and>
        (doc_type d = ''lvl1'' \<longrightarrow>
           hierarchy_lvl1 d \<noteq> [] \<and> hierarchy_lvl2 d = [] \<and> hierarchy_lvl3 d = []) \<and>
        (doc_type d = ''lvl2'' \<longrightarrow> hierarchy_lvl2 d \<noteq> [] \<and> hierarchy_lvl3 d = []))"
proof -
  have snapshots:
    "map snapshot docs =
       map seen_hierarchy
         (tl (prefixes (with_text (find_all c [''h1'', ''h2'', ''h3'', ''h4'', ''p'', ''li'']))))"
    if page: "read_text f = Inr soup' \<and> get_content_element cfg soup' = Some c" for soup' c
  proof -
    let ?es = "find_all c [''h1'', ''h2'', ''h3'', ''h4'', ''p'', ''li'']"
    have tags: "\<forall>e\<in>set ?es. name (elem e) \<in> set [''h1'', ''h2'', ''h3'', ''h4'', ''p'', ''li'']"
      by (simp add: find_all_def)
    have "docs = extract_loop sha cfg (get_relative_url out f) (seen_hierarchy []) ?es"
      using assms page by (simp add: extract_documents_def Let_def seen_hierarchy_Nil)
    then show ?thesis
      using extract_loop_snapshots [OF tags, of sha cfg "get_relative_url out f" "[]"] by simp
  qed
  have reset:
    "(doc_type d = ''lvl0'' \<longrightarrow>
        hierarchy_lvl0 d \<noteq> [] \<and> hierarchy_lvl1 d = [] \<and> hierarchy_lvl2 d = []
        \<and> hierarchy_lvl3 d = []) \<and>
     (doc_type d = ''lvl1'' \<longrightarrow>
        hierarchy_lvl1 d \<noteq> [] \<and> hierarchy_lvl2 d = [] \<and> hierarchy_lvl3 d = []) \<and>
     (doc_type d = ''lvl2'' \<longrightarrow> hierarchy_lvl2 d \<noteq> [] \<and> hierarchy_lvl3 d = [])"
    if d: "d \<in> set docs" for d
  proof -
    have "\<exists>u h es. d \<in> set (extract_loop sha cfg u h es)"
      using assms d
      by (auto simp: extract_documents_def Let_def split: sum.splits option.splits if_splits)
    then obtain u h es where "d \<in> set (extract_loop sha cfg u h es)" by blast
    from extract_loop_reset [OF this] show ?thesis by blast
  qed
  from snapshots reset show ?thesis by blast
qed

lemma manual_elements:
  "find_all manual_content [''h1'', ''h2'', ''h3'', ''h4'', ''p'', ''li''] =
     [\<lparr>elem = Tag ''h1'' [] [NavigableString ''Install''], previous_sibling = None,
       parents = [manual_main]\<rparr>,
      \<lparr>elem = Tag ''h2'' [] [NavigableString ''Linux''],
       previous_sibling = Some (Tag ''h1'' [] [NavigableString ''Install'']),
       parents = [manual_main]\<rparr>,
      \<lparr>elem = Tag ''h3'' [] [NavigableString ''Apt''],
       previous_sibling = Some (Tag ''h2'' [] [NavigableString ''Linux'']),
       parents = [manual_main]\<rparr>,
      \<lparr>elem = Tag ''h1'' [] [NavigableString ''Usage''],
       previous_sibling = Some (Tag ''h3'' [] [NavigableString ''Apt'']),
       parents = [manual_main]\<rparr>,
      \<lparr>elem = Tag ''h2'' [] [NavigableString ''CLI''],
       previous_sibling = Some (Tag ''h1'' [] [NavigableString ''Usage'']),
       parents = [manual_main]\<rparr>]"
  by (simp add: find_all_def manual_content_def) (simp add: manual_main_def)

lemma manual_page:
  "read_text manual_html = Inr manual_soup \<and>
   get_content_element docs_config manual_soup = Some manual_content"
  by (simp add: manual_html_def get_content_element_def docs_config_def py_or_def manual_soup_def)

lemma manual_extracted:
  "extract_documents (\<lambda>bs. replicate 32 0) docs_config [''build'', ''html''] manual_html
     = Inr manual_documents"
  using manual_page by (simp add: manual_documents_def extract_documents_def Let_def)

theorem hierarchy_snapshots_follow_reset_rule_witness:
  "extract_documents (\<lambda>bs. replicate 32 0) docs_config [''build'', ''html''] manual_html
     = Inr manual_documents \<and>
   map snapshot manual_documents =
     [\<lparr>lvl0 = ''Install'', lvl1 = [], lvl2 = [], lvl3 = []\<rparr>,
      \<lparr>lvl0 = ''Install'', lvl1 = ''Linux'', lvl2 = [], lvl3 = []\<rparr>,
      \<lparr>lvl0 = ''Install'', lvl1 = ''Linux'', lvl2 = ''Apt'', lvl3 = []\<rparr>,
      \<lparr>lvl0 = ''Usage'', lvl1 = [], lvl2 = [], lvl3 = []\<rparr>,
      \<lparr>lvl0 = ''Usage'', lvl1 = ''CLI'', lvl2 = [], lvl3 = []\<rparr>]"
proof -
  have "map snapshot manual_documents =
          map seen_hierarchy
            (tl (prefixes (with_text
               (find_all manual_content [''h1'', ''h2'', ''h3'', ''h4'', ''p'', ''li'']))))"
    using hierarchy_snapshots_follow_reset_rule [OF manual_extracted] manual_page by blast
  also have "\<dots> =
     [\<lparr>lvl0 = ''Install'', lvl1 = [], lvl2 = [], lvl3 = []\<rparr>,
      \<lparr>lvl0 = ''Install'', lvl1 = ''Linux'', lvl2 = [], lvl3 = []\<rparr>,
      \<lparr>lvl0 = ''Install'', lvl1 = ''Linux'', lvl2 = ''Apt'', lvl3 = []\<rparr>,
      \<lparr>lvl0 = ''Usage'', lvl1 = [], lvl2 = [], lvl3 = []\<rparr>,
      \<lparr>lvl0 = ''Usage'', lvl1 = ''CLI'', lvl2 = [], lvl3 = []\<rparr>]"
    unfolding manual_elements
    by (simp add: with_text_def get_text_strip_def strip_def is_space_def seen_hierarchy_def
        current_heading_def since_higher_def heading_level_def Let_def)
  finally show ?thesis
    using manual_extracted by simp
qed

section \<open>Content locator\<close>

lemma first_match_find:
  "first_match soup' selectors =
     (case List.find (\<lambda>s. soup' s \<noteq> None) selectors of None \<Rightarrow> None | Some s \<Rightarrow> soup' s)"
  by (induction selectors) (auto split: option.splits)

text \<open>
  C1, as the claim states it, fails: under an unrecognised theme and without custom
  selectors, a page whose main element matches \<open>.document\<close> and \<open>[role=main]\<close> only
  is located by the generic list of the theme registry but not by the backend.
\<close>

theorem content_locator_misses_generic_selectors:
  "map_of THEME_SELECTORS ''unknown_theme_xyz'' = None \<and>
   html_theme docs_config = Some ''unknown_theme_xyz'' \<and>
   typesense_content_selectors docs_config = None \<and>
   get_content_selectors (html_theme docs_config) (typesense_content_selectors docs_config)
     = [''article[role=main]'', ''main'', ''.body'', ''.document'', ''[role=main]''] \<and>
   first_match document_soup [''article[role=main]'', ''main'', ''.body'', ''.document'', ''[role=main]'']
     = Some document_div \<and>
   get_content_element docs_config document_soup = None"
  by (simp add: THEME_SELECTORS_def docs_config_def DEFAULT_CONTENT_SELECTORS_def
      document_soup_def get_content_element_def py_or_def get_content_selectors_def)

text \<open>
  C1, amended. Without custom selectors (the option unset or empty, or left at the
  default that config.py registers for it), and whatever the theme, the content locator
  tries the selectors \<open>.wy-nav-content-wrap\<close>, \<open>article.bd-article\<close>, \<open>.body\<close>,
  \<open>article[role=main]\<close>, \<open>main\<close> in that order and returns the match of the first
  that has one, or nothing.
\<close>

theorem content_locator_builtin_selectors:
  assumes "\<not> truthy (typesense_content_selectors cfg) \<or>
           typesense_content_selectors cfg = Some config_DEFAULT_CONTENT_SELECTORS"
  shows "get_content_element (cfg\<lparr>html_theme := theme\<rparr>) soup' =
           (case List.find (\<lambda>s. soup' s \<noteq> None)
                   [''.wy-nav-content-wrap'', ''article.bd-article'', ''.body'',
                    ''article[role=main]'', ''main''] of
              None \<Rightarrow> None
            | Some s \<Rightarrow> soup' s)"
proof -
  have "py_or (typesense_content_selectors cfg) d = d"
    if "\<not> truthy (typesense_content_selectors cfg)" for d :: "string list"
    using that by (auto simp: truthy_def py_or_def split: option.splits)
  moreover have "py_or (Some config_DEFAULT_CONTENT_SELECTORS) d =
      [''.wy-nav-content-wrap'', ''article.bd-article'', ''.body'', ''article[role=main]'', ''main'']"
    for d :: "string list"
    by (simp add: py_or_def config_DEFAULT_CONTENT_SELECTORS_def)
  ultimately have "py_or (typesense_content_selectors cfg)
      [''.wy-nav-content-wrap'', ''article.bd-article'', ''.body'', ''article[role=main]'', ''main''] =
      [''.wy-nav-content-wrap'', ''article.bd-article'', ''.body'', ''article[role=main]'', ''main'']"
    using assms by metis
  then show ?thesis
    unfolding get_content_element_def Let_def first_match_find by simp
qed

theorem content_locator_builtin_selectors_witness:
  "\<not> truthy (typesense_content_selectors docs_config) \<and>
   get_content_element (docs_config\<lparr>html_theme := Some ''furo''\<rparr>) guide_soup = Some guide_content \<and>
   get_content_element (docs_config\<lparr>html_theme := Some ''unknown_theme_xyz''\<rparr>) document_soup = None \<and>
   get_content_element
     (docs_config\<lparr>typesense_content_selectors := Some config_DEFAULT_CONTENT_SELECTORS,
                   html_theme := Some ''unknown_theme_xyz''\<rparr>) document_soup = None"
proof -
  have none: "\<not> truthy (typesense_content_selectors docs_config)"
    by (simp add: docs_config_def truthy_def)
  show ?thesis
    using none
      content_locator_builtin_selectors [of docs_config "Some ''furo''" guide_soup]
      content_locator_builtin_selectors [of docs_config "Some ''unknown_theme_xyz''" document_soup]
      content_locator_builtin_selectors
        [of "docs_config\<lparr>typesense_content_selectors := Some config_DEFAULT_CONTENT_SELECTORS\<rparr>"
            "Some ''unknown_theme_xyz''" document_soup]
    by (simp add: guide_soup_def document_soup_def)
qed

section \<open>Indexing with the Typesense backend\<close>

lemma check_connection_first_healthy:
  assumes "server_available b = None" and "is_healthy w (health_checks b) = Inr True"
  shows "check_connection w b =
           (Inr True, b\<lparr>trace := trace b @ [HealthCheck], server_available := Some True\<rparr>)"
  using assms
  unfolding check_connection_def range_attempts
  by (simp add: try_health_def Let_def)

lemma healthy_world_check:
  "is_healthy w = (\<lambda>n. Inr True) \<Longrightarrow>
   check_connection w fresh_backend =
     (Inr True, \<lparr>server_available = Some True, trace = [HealthCheck]\<rparr>)"
  using check_connection_first_healthy [of fresh_backend w]
  by (simp add: fresh_backend_def)

lemma guide_elements:
  "find_all guide_content [''h1'', ''h2'', ''h3'', ''h4'', ''p'', ''li''] =
     [\<lparr>elem = install_h1, previous_sibling = None, parents = guide_div # parents guide_content\<rparr>,
      \<lparr>elem = steps_p, previous_sibling = Some install_h1,
       parents = guide_div # parents guide_content\<rparr>]"
  by (simp add: find_all_def guide_content_def guide_div_def)
     (simp add: install_h1_def steps_p_def)

lemma guide_extracted:
  "extract_all (\<lambda>bs. replicate 32 0) docs_config [''build'', ''html''] [guide_html]
     = Inr guide_documents \<and> length guide_documents = 2"
proof -
  have page: "read_text guide_html = Inr guide_soup \<and>
              get_content_element docs_config guide_soup = Some guide_content"
    by (simp add: guide_html_def get_content_element_def docs_config_def py_or_def guide_soup_def)
  have texts: "get_text_strip install_h1 = ''Install''" "get_text_strip steps_p = ''Steps here''"
    by (simp_all add: get_text_strip_def install_h1_def steps_p_def strip_def is_space_def)
  have names: "name install_h1 = ''h1''" "name steps_p = ''p''"
    by (simp_all add: install_h1_def steps_p_def)
  have "\<exists>d1 d2. extract_documents (\<lambda>bs. replicate 32 0) docs_config [''build'', ''html''] guide_html
          = Inr [d1, d2]"
    using page
    by (simp add: extract_documents_def Let_def guide_elements process_element_def texts names)
  then show ?thesis
    by (auto simp: guide_documents_def)
qed

text \<open>
  Where \<open>index_all\<close> does return 0: when the connection check answers false (the
  retries are exhausted or the API key is rejected), and when the bulk import of the
  extracted documents raises \<open>ServiceUnavailable\<close>, \<open>Timeout\<close>, \<open>HTTPStatus0Error\<close>,
  \<open>ConnectionError\<close>, \<open>TimeoutError\<close> or \<open>OSError\<close>.
\<close>

lemma index_all_zero_cases:
  "(fst (check_connection w b) = Inr False \<longrightarrow> fst (index_all cfg w b) = Inr 0) \<and>
   (fst (check_connection w b) = Inr True \<and> ensure_collection cfg w = Inr () \<and>
    extract_all (sha256 w) cfg (outdir w) (html_files w) = Inr docs \<and> docs \<noteq> [] \<and>
    documents_import w docs = Inl e \<and> network_failure e
      \<longrightarrow> fst (index_all cfg w b) = Inr 0)"
proof (intro conjI impI)
  assume "fst (check_connection w b) = Inr False"
  then show "fst (index_all cfg w b) = Inr 0"
    by (cases "check_connection w b") (simp add: index_all_def)
next
  assume a: "fst (check_connection w b) = Inr True \<and> ensure_collection cfg w = Inr () \<and>
    extract_all (sha256 w) cfg (outdir w) (html_files w) = Inr docs \<and> docs \<noteq> [] \<and>
    documents_import w docs = Inl e \<and> network_failure e"
  then show "fst (index_all cfg w b) = Inr 0"
    by (cases "check_connection w b") (auto simp: index_all_def network_failure_def)
qed

text \<open>
  An exception of \<open>_ensure_collection\<close> leaves \<open>index_all\<close> as it is: the call is
  outside every \<open>try\<close> block.
\<close>

lemma index_all_propagates_ensure_collection:
  assumes "fst (check_connection w b) = Inr True" and "ensure_collection cfg w = Inl e"
  shows "fst (index_all cfg w b) = Inl e"
  using assms by (cases "check_connection w b") (simp add: index_all_def)

lemma down_world_check:
  "check_connection down_world fresh_backend =
     (Inr False,
      \<lparr>server_available = Some False,
       trace = [HealthCheck, Sleep 1, HealthCheck, Sleep 2, HealthCheck]\<rparr>)"
proof -
  have t: "try_health (Inl unavailable) = Retry"
    by (simp add: try_health_def unavailable_def isinstance_def)
  show ?thesis
    unfolding check_connection_def range_attempts
    by (simp add: fresh_backend_def down_world_def example_world_def t Let_def health_checks_def
        MAX_RETRIES_def INITIAL_BACKOFF_SECONDS_def BACKOFF_MULTIPLIER_def)
qed

lemma index_all_zero_examples:
  "fst (index_all docs_config down_world fresh_backend) = Inr 0 \<and>
   fst (index_all docs_config import_fails_world fresh_backend) = Inr 0"
proof -
  have c1: "fst (check_connection down_world fresh_backend) = Inr False"
    by (simp add: down_world_check)
  have c2: "fst (check_connection import_fails_world fresh_backend) = Inr True"
    by (subst healthy_world_check)
       (simp_all add: import_fails_world_def healthy_world_def example_world_def)
  have e2: "ensure_collection docs_config import_fails_world = Inr ()"
    by (simp add: ensure_collection_def docs_config_def import_fails_world_def healthy_world_def
        example_world_def)
  have x2: "extract_all (sha256 import_fails_world) docs_config (outdir import_fails_world)
              (html_files import_fails_world) = Inr guide_documents"
    using guide_extracted
    by (simp add: import_fails_world_def healthy_world_def example_world_def)
  have n2: "guide_documents \<noteq> []"
    using guide_extracted by auto
  have i2: "documents_import import_fails_world guide_documents = Inl unavailable"
    by (simp add: import_fails_world_def)
  have nf: "network_failure unavailable"
    by (simp add: network_failure_def unavailable_def isinstance_def)
  show ?thesis
    using index_all_zero_cases [of down_world fresh_backend docs_config]
      index_all_zero_cases
        [of import_fails_world fresh_backend docs_config guide_documents unavailable]
      c1 c2 e2 x2 n2 i2 nf
    by blast
qed

text \<open>
  C2. The claim: every environmental failure makes \<open>index_all\<close> return 0 without
  raising. The code does not: when the server passes the health check and then answers
  the creation of the collection with \<open>ServiceUnavailable\<close> (a server that went down
  in between), \<open>_ensure_collection\<close> raises the exception again and \<open>index_all\<close>
  ends with it instead of returning 0.
\<close>

theorem index_all_raises_when_creation_fails:
  "network_failure unavailable \<and>
   index_all docs_config create_fails_world fresh_backend =
     (Inl unavailable, \<lparr>server_available = Some True, trace = [HealthCheck]\<rparr>)"
proof -
  have c: "check_connection create_fails_world fresh_backend =
             (Inr True, \<lparr>server_available = Some True, trace = [HealthCheck]\<rparr>)"
    by (rule healthy_world_check)
       (simp add: create_fails_world_def healthy_world_def example_world_def)
  have l: "lower ''Service Unavailable'' = ''service unavailable''"
    by code_simp
  have e: "ensure_collection docs_config create_fails_world = Inl unavailable"
    by (simp add: ensure_collection_def docs_config_def create_fails_world_def healthy_world_def
        example_world_def unavailable_def isinstance_def l)
  show ?thesis
    by (simp add: index_all_def c e)
       (simp add: network_failure_def unavailable_def isinstance_def)
qed

text \<open>
  C10. When the connection check succeeds, the collection is in place and the bulk
  import does not raise, \<open>index_all\<close> returns the number of extracted documents,
  whatever the items of the import's answer say. The items that report a failure are
  counted, and a count above zero is logged as a warning; it is not subtracted.
\<close>

theorem index_all_returns_extracted_count:
  assumes "fst (check_connection w b) = Inr True"
    and "ensure_collection cfg w = Inr ()"
    and "extract_all (sha256 w) cfg (outdir w) (html_files w) = Inr docs"
    and "docs \<noteq> [] \<longrightarrow> documents_import w docs = Inr result"
  shows "fst (index_all cfg w b) = Inr (length docs) \<and>
         (docs \<noteq> [] \<and> 0 < count_import_errors result \<longrightarrow>
            trace (snd (index_all cfg w b)) =
              trace (snd (check_connection w b)) @ [Warning_failed_imports (count_import_errors result)])"
  using assms
  by (cases "check_connection w b") (auto simp: index_all_def Let_def)

theorem index_all_returns_extracted_count_witness:
  "count_import_errors
     [\<lparr>success = Some True, error = None\<rparr>, \<lparr>success = Some False, error = Some ''Bad JSON''\<rparr>] = 1 \<and>
   length guide_documents = 2 \<and>
   fst (index_all docs_config item_fails_world fresh_backend) = Inr 2 \<and>
   trace (snd (index_all docs_config item_fails_world fresh_backend)) =
     [HealthCheck, Warning_failed_imports 1]"
proof -
  have c: "check_connection item_fails_world fresh_backend =
             (Inr True, \<lparr>server_available = Some True, trace = [HealthCheck]\<rparr>)"
    by (rule healthy_world_check)
       (simp add: item_fails_world_def healthy_world_def example_world_def)
  have e: "ensure_collection docs_config item_fails_world = Inr ()"
    by (simp add: ensure_collection_def docs_config_def item_fails_world_def healthy_world_def
        example_world_def)
  have x: "extract_all (sha256 item_fails_world) docs_config (outdir item_fails_world)
              (html_files item_fails_world) = Inr guide_documents"
    using guide_extracted
    by (simp add: item_fails_world_def healthy_world_def example_world_def)
  have i: "guide_documents \<noteq> [] \<longrightarrow>
           documents_import item_fails_world guide_documents =
             Inr [\<lparr>success = Some True, error = None\<rparr>,
                  \<lparr>success = Some False, error = Some ''Bad JSON''\<rparr>]"
    by (simp add: item_fails_world_def)
  have n: "count_import_errors
     [\<lparr>success = Some True, error = None\<rparr>, \<lparr>success = Some False, error = Some ''Bad JSON''\<rparr>] = 1"
    by (simp add: count_import_errors_def)
  have c': "fst (check_connection item_fails_world fresh_backend) = Inr True"
    by (simp add: c)
  show ?thesis
    using index_all_returns_extracted_count [OF c' e x i] guide_extracted n c
    by auto
qed

section \<open>Indexing with the Pagefind backend\<close>

lemma parse_page_count_first_pattern:
  "parse_page_count w output = first_pattern_count (int_max_str_digits w) output"
  by (simp add: parse_page_count_def first_pattern_count_def List.map_filter_def
      split: option.splits)

text \<open>
  Where \<open>PagefindBackend.index_all\<close> does return a value: 0 when no command is found,
  when the command cannot be started (\<open>FileNotFoundError\<close>, \<open>OSError\<close>), when it runs
  longer than 300 seconds, when it ends with a non-zero exit code, and when none of the
  three patterns is found in its output; the number of the first pattern found, in the
  order "Indexed N pages", "on N pages", "N pages", when the build directory exists,
  the command ends in time with exit code 0 and the number is within the limit on
  digits.
\<close>

lemma pagefind_index_all_values:
  "(find_pagefind_command w = None \<longrightarrow> pagefind_index_all w = Inr 0) \<and>
   (find_pagefind_command w = Some cmd \<and> spawn w (site_command w cmd) = Fails e \<and>
    (isinstance e ''FileNotFoundError'' \<or> isinstance e ''OSError'')
      \<longrightarrow> pagefind_index_all w = Inr 0) \<and>
   (find_pagefind_command w = Some cmd \<and> spawn w (site_command w cmd) = Runs secs rc out err \<and>
    300 < secs
      \<longrightarrow> pagefind_index_all w = Inr 0) \<and>
   (find_pagefind_command w = Some cmd \<and>
    subprocess_run w (site_command w cmd) 300 = Inr (Completed rc out' err') \<and> rc \<noteq> 0
      \<longrightarrow> pagefind_index_all w = Inr 0) \<and>
   (find_pagefind_command w = Some cmd \<and>
    subprocess_run w (site_command w cmd) 300 = Inr (Completed rc out' err') \<and>
    search match_indexed out' = None \<and> search match_on out' = None \<and>
    search match_pages out' = None
      \<longrightarrow> pagefind_index_all w = Inr 0) \<and>
   (build_dir_exists w \<and> find_pagefind_command w = Some cmd \<and>
    subprocess_run w (site_command w cmd) 300 = Inr (Completed 0 out' err')
      \<longrightarrow> pagefind_index_all w = first_pattern_count (int_max_str_digits w) out')"
  by (auto simp: pagefind_index_all_def run_pagefind_def subprocess_run_def Let_def
      parse_page_count_first_pattern isinstance_def first_pattern_count_def List.map_filter_def)

lemma pagefind_outputs:
  "first_pattern_count 4300 ''Found 33 pages. Indexed 12 pages'' = Inr 12"
  "first_pattern_count 4300 ''Found 3 pages on 7 pages'' = Inr 7"
  "first_pattern_count 4300 ''wrote 5 pages'' = Inr 5"
  "first_pattern_count 4300 ''nothing to do'' = Inr 0"
  by code_simp+

text \<open>A number of more digits than the limit makes \<open>_parse_page_count\<close> raise.\<close>

lemma parse_page_count_raises_over_limit:
  assumes "search match_indexed output = Some g"
    and "0 < int_max_str_digits w" and "int_max_str_digits w < length g"
  shows "parse_page_count w output = Inl digits_limit_error"
  using assms by (simp add: parse_page_count_def int_of_digits_def)

text \<open>
  C8. The claim: \<open>PagefindBackend.index_all\<close> returns 0 whenever no page count can be
  parsed from the output of the command, and never raises. The code does not: when the
  command ends in time with exit code 0 and its output holds a byte that is not text in
  the locale's encoding (here the byte 255 before "Indexed 3 pages"),
  \<open>subprocess.run\<close> raises \<open>UnicodeDecodeError\<close>, none of the three \<open>except\<close> clauses
  of \<open>_run_pagefind\<close> catches it, and \<open>index_all\<close> ends with the exception.
\<close>

theorem pagefind_index_all_raises_on_undecodable_output:
  "pagefind_index_all (pagefind_example (Runs 2 0 (255 # encode ''Indexed 3 pages'') []))
     = Inl decode_error"
proof -
  have d: "ascii_decode (255 # bs) = None" for bs
    by (simp add: ascii_decode_def)
  have "subprocess_run (pagefind_example (Runs 2 0 (255 # encode ''Indexed 3 pages'') []))
          c 300 = Inl decode_error" for c
    by (simp add: subprocess_run_def pagefind_example_def d)
  then show ?thesis
    by (simp add: pagefind_index_all_def run_pagefind_def find_pagefind_command_def Let_def)
       (simp add: pagefind_example_def decode_error_def isinstance_def)
qed

end
